theory Spec2Isabelle
  imports Main "HOL-Library.Word"
begin

unbundle bit_operations_syntax

section \<open>Strings and paths\<close>

text \<open>
  The Go source (\<^verbatim>\<open>internal/cloud/s3.go\<close>) works on byte strings; a \<^typ>\<open>string\<close> is
  a list of bytes. The helpers of this section are the functions of the Go standard library
  that the source calls (\<^verbatim>\<open>strings.ToLower\<close>, \<^verbatim>\<open>filepath.Ext\<close>,
  \<^verbatim>\<open>strings.TrimPrefix\<close>, \<^verbatim>\<open>filepath.ToSlash\<close>, \<^verbatim>\<open>strings.FieldsFunc\<close>,
  \<^verbatim>\<open>filepath.Clean\<close>, \<^verbatim>\<open>filepath.Join\<close>, \<^verbatim>\<open>filepath.Dir\<close>), written after their
  documented behaviour on a system whose path separator is the slash.
\<close>

definition Separator :: char where
  "Separator = CHR ''/''"

text \<open>\<^verbatim>\<open>strings.ToLower\<close> on the ASCII letters (the only bytes that decide whether an
  extension equals \<^verbatim>\<open>.xz\<close> or \<^verbatim>\<open>.zstd\<close>); every other byte is kept.\<close>

definition to_lower_char :: "char \<Rightarrow> char" where
  "to_lower_char c =
     (case map_of (zip ''ABCDEFGHIJKLMNOPQRSTUVWXYZ'' ''abcdefghijklmnopqrstuvwxyz'') c of
        None \<Rightarrow> c
      | Some l \<Rightarrow> l)"

definition ToLower :: "string \<Rightarrow> string" where
  "ToLower s = map to_lower_char s"

text \<open>\<^verbatim>\<open>filepath.Ext\<close>: scan from the last byte towards the first, stop at a separator,
  return the suffix that starts at the first dot met. \<open>ext_scan\<close> walks the reversed path and
  keeps the bytes already passed in \<open>acc\<close>.\<close>

fun ext_scan :: "string \<Rightarrow> string \<Rightarrow> string" where
  "ext_scan [] acc = []"
| "ext_scan (c # cs) acc =
     (if c = CHR ''/'' then []
      else if c = CHR ''.'' then c # acc
      else ext_scan cs (c # acc))"

definition Ext :: "string \<Rightarrow> string" where
  "Ext path = ext_scan (rev path) []"

text \<open>\<^verbatim>\<open>strings.TrimPrefix\<close>.\<close>

fun TrimPrefix :: "string \<Rightarrow> string \<Rightarrow> string" where
  "TrimPrefix s pre = (if take (length pre) s = pre then drop (length pre) s else s)"

text \<open>\<^verbatim>\<open>filepath.ToSlash\<close>, for an operating system whose separator is \<open>sep\<close>: the
  identity when the separator is the slash, otherwise every separator becomes a slash.\<close>

definition ToSlash_sep :: "char \<Rightarrow> string \<Rightarrow> string" where
  "ToSlash_sep sep path =
     (if sep = CHR ''/'' then path else map (\<lambda>c. if c = sep then CHR ''/'' else c) path)"

definition ToSlash :: "string \<Rightarrow> string" where
  "ToSlash path = ToSlash_sep Separator path"

text \<open>\<^verbatim>\<open>strings.FieldsFunc(s, func(c) { return c == '/' })\<close>: the maximal runs of bytes
  other than the slash, in order. \<open>cur\<close> is the field being read.\<close>

fun fields_from :: "string \<Rightarrow> string \<Rightarrow> string list" where
  "fields_from cur [] = (if cur = [] then [] else [cur])"
| "fields_from cur (c # cs) =
     (if c = CHR ''/'' then (if cur = [] then fields_from [] cs else cur # fields_from [] cs)
      else fields_from (cur @ [c]) cs)"

definition FieldsFunc :: "string \<Rightarrow> string list" where
  "FieldsFunc s = fields_from [] s"

text \<open>\<^verbatim>\<open>strings.Join(elems, "/")\<close>.\<close>

fun join_slash :: "string list \<Rightarrow> string" where
  "join_slash [] = []"
| "join_slash [x] = x"
| "join_slash (x # y # ys) = x @ CHR ''/'' # join_slash (y # ys)"

text \<open>\<^verbatim>\<open>filepath.Clean\<close>: multiple separators become one, every \<^verbatim>\<open>.\<close> element is
  dropped, an inner \<^verbatim>\<open>..\<close> removes the element before it, a \<^verbatim>\<open>..\<close> at the start of a
  rooted path is dropped, and the empty result is \<^verbatim>\<open>.\<close>. \<open>clean_step\<close> handles one path
  element; \<open>out\<close> is the list of elements kept so far.\<close>

definition clean_step :: "bool \<Rightarrow> string list \<Rightarrow> string \<Rightarrow> string list" where
  "clean_step rooted out seg =
     (if seg = ''.'' then out
      else if seg = ''..'' then
        (if out \<noteq> [] \<and> last out \<noteq> ''..'' then butlast out
         else if rooted then out
         else out @ [seg])
      else out @ [seg])"

definition Clean :: "string \<Rightarrow> string" where
  "Clean path =
     (if path = [] then ''.''
      else
        let rooted = (hd path = CHR ''/'');
            body = join_slash (foldl (clean_step rooted) [] (FieldsFunc path))
        in if rooted then CHR ''/'' # body
           else if body = [] then ''.''
           else body)"

text \<open>\<^verbatim>\<open>filepath.Join\<close>: the elements from the first non-empty one on, joined by the
  separator and cleaned; the empty string when every element is empty.\<close>

definition Join :: "string list \<Rightarrow> string" where
  "Join elem =
     (case dropWhile (\<lambda>e. e = []) elem of
        [] \<Rightarrow> []
      | es \<Rightarrow> Clean (join_slash es))"

text \<open>\<^verbatim>\<open>filepath.Dir\<close>: everything up to the last separator, cleaned.\<close>

definition Dir :: "string \<Rightarrow> string" where
  "Dir path = Clean (rev (dropWhile (\<lambda>c. c \<noteq> CHR ''/'') (rev path)))"

text \<open>The directories a path lookup walks through before it reaches the last element:
  \<^verbatim>\<open>out\<close> and \<^verbatim>\<open>out/x\<close> for \<^verbatim>\<open>out/x/b.txt\<close>.\<close>

fun seg_prefixes :: "string \<Rightarrow> string list \<Rightarrow> string list" where
  "seg_prefixes pre [] = []"
| "seg_prefixes pre (seg # rest) = (pre @ seg) # seg_prefixes (pre @ seg @ ''/'') rest"

definition ancestors :: "string \<Rightarrow> string list" where
  "ancestors path =
     butlast (seg_prefixes (if path \<noteq> [] \<and> hd path = CHR ''/'' then ''/'' else [])
                (FieldsFunc path))"

text \<open>\<^verbatim>\<open>path.Base\<close>: the last element of the path; \<^verbatim>\<open>.\<close> for the empty path and
  \<^verbatim>\<open>/\<close> for a path of slashes only.\<close>

definition Base :: "string \<Rightarrow> string" where
  "Base path =
     (if path = [] then ''.''
      else (case FieldsFunc path of [] \<Rightarrow> ''/'' | seg # rest \<Rightarrow> last (seg # rest)))"

section \<open>Errors\<close>

text \<open>Every error value the source returns or passes on. \<open>EOF\<close> is \<^verbatim>\<open>io.EOF\<close>, the
  end-of-archive signal of \<^verbatim>\<open>compression.Read\<close>; \<open>PathError\<close> is the error of a failed
  filesystem call, with the error number and the path; the three \<^verbatim>\<open>fmt.Errorf\<close> errors
  of the source have one constructor each; \<open>RemoteError\<close> is whatever the S3 up- or
  downloader returns, \<open>StreamError\<close> a failure of the archive or compression codec.\<close>

datatype errno = ENOENT | EACCES | ENOTDIR | EEXIST | EISDIR

datatype error =
    EOF
  | PathError errno string
  | UnknownExtension string
  | UnexpectedPath string
  | IncorrectPath
  | RemoteError string
  | StreamError string

text \<open>\<^verbatim>\<open>errors.Is(err, os.ErrNotExist)\<close> on the error of a failed \<^verbatim>\<open>os.Stat\<close>.\<close>

definition is_ErrNotExist :: "errno \<Rightarrow> bool" where
  "is_ErrNotExist e = (e = ENOENT)"

section \<open>The local filesystem\<close>

text \<open>
  The local filesystem is an external collaborator of the source; the model keeps what the
  four calls of the source (\<^verbatim>\<open>os.Stat\<close>, \<^verbatim>\<open>os.Mkdir\<close>, \<^verbatim>\<open>os.Create\<close> and the write
  of \<^verbatim>\<open>io.Copy\<close>) can observe. \<open>nodes\<close> maps a path to the file or directory found there,
  with the permission bits it was created with (the process umask is outside the model);
  \<open>statFail\<close> gives the paths whose lookup fails for another reason than absence, for
  example \<open>EACCES\<close> when an ancestor cannot be searched. The lookup of the empty path fails
  with \<open>ENOENT\<close>, and the lookup of a path below a regular file with \<open>ENOTDIR\<close>.
\<close>

type_synonym FileMode = "32 word"

definition Perm :: "FileMode \<Rightarrow> FileMode" where
  "Perm m = m AND 0x1FF"

datatype node = File FileMode string | Directory FileMode

record filesys =
  nodes :: "string \<rightharpoonup> node"
  statFail :: "string \<rightharpoonup> errno"

definition is_file :: "filesys \<Rightarrow> string \<Rightarrow> bool" where
  "is_file fs path = (case nodes fs path of Some (File _ _) \<Rightarrow> True | _ \<Rightarrow> False)"

text \<open>The error every call on \<open>path\<close> fails with before it looks at the last element.\<close>

definition resolve_err :: "filesys \<Rightarrow> string \<Rightarrow> errno option" where
  "resolve_err fs path =
     (if path = [] then Some ENOENT
      else
        (case statFail fs path of
           Some e \<Rightarrow> Some e
         | None \<Rightarrow> if list_ex (is_file fs) (ancestors path) then Some ENOTDIR else None))"

definition Stat :: "filesys \<Rightarrow> string \<Rightarrow> errno + node" where
  "Stat fs path =
     (case resolve_err fs path of
        Some e \<Rightarrow> Inl e
      | None \<Rightarrow> (case nodes fs path of None \<Rightarrow> Inl ENOENT | Some n \<Rightarrow> Inr n))"

text \<open>\<^verbatim>\<open>Exists\<close> (lines 33-39 of the source).\<close>

definition Exists :: "filesys \<Rightarrow> string \<Rightarrow> bool" where
  "Exists fs path =
     (case Stat fs path of
        Inl err \<Rightarrow> \<not> is_ErrNotExist err
      | Inr _ \<Rightarrow> True)"

text \<open>\<^verbatim>\<open>os.Mkdir(path, perm)\<close>: fails when the path cannot be looked up, when something is
  already there, or when the parent is absent or not a directory.\<close>

definition Mkdir :: "filesys \<Rightarrow> string \<Rightarrow> FileMode \<Rightarrow> error option \<times> filesys" where
  "Mkdir fs path perm =
     (case resolve_err fs path of
        Some e \<Rightarrow> (Some (PathError e path), fs)
      | None \<Rightarrow>
          (case nodes fs path of
             Some _ \<Rightarrow> (Some (PathError EEXIST path), fs)
           | None \<Rightarrow>
               (case nodes fs (Dir path) of
                  None \<Rightarrow> (Some (PathError ENOENT path), fs)
                | Some (File _ _) \<Rightarrow> (Some (PathError ENOTDIR path), fs)
                | Some (Directory _) \<Rightarrow>
                    (None, fs\<lparr>nodes := (nodes fs)(path \<mapsto> Directory perm)\<rparr>))))"

text \<open>\<^verbatim>\<open>os.Create(path)\<close>: create with mode 0666 or truncate; a directory cannot be
  opened for writing.\<close>

definition Create :: "filesys \<Rightarrow> string \<Rightarrow> error option \<times> filesys" where
  "Create fs path =
     (case resolve_err fs path of
        Some e \<Rightarrow> (Some (PathError e path), fs)
      | None \<Rightarrow>
          (case nodes fs path of
             Some (Directory _) \<Rightarrow> (Some (PathError EISDIR path), fs)
           | Some (File m _) \<Rightarrow> (None, fs\<lparr>nodes := (nodes fs)(path \<mapsto> File m [])\<rparr>)
           | None \<Rightarrow>
               (case nodes fs (Dir path) of
                  None \<Rightarrow> (Some (PathError ENOENT path), fs)
                | Some (File _ _) \<Rightarrow> (Some (PathError ENOTDIR path), fs)
                | Some (Directory _) \<Rightarrow>
                    (None, fs\<lparr>nodes := (nodes fs)(path \<mapsto> File 0x1B6 [])\<rparr>))))"

text \<open>The bytes \<^verbatim>\<open>io.Copy\<close> writes to the file just created.\<close>

definition write_file :: "filesys \<Rightarrow> string \<Rightarrow> string \<Rightarrow> filesys" where
  "write_file fs path bytes =
     (case nodes fs path of
        Some (File m old) \<Rightarrow> fs\<lparr>nodes := (nodes fs)(path \<mapsto> File m (old @ bytes))\<rparr>
      | _ \<Rightarrow> fs)"

section \<open>Archive entries and extraction\<close>

text \<open>
  An \<^verbatim>\<open>archiver.File\<close> as the source uses it: \<open>Name\<close>, \<open>IsDir\<close> and \<open>Mode\<close> are the
  results of \<^verbatim>\<open>f.Name()\<close>, \<^verbatim>\<open>f.IsDir()\<close> and \<^verbatim>\<open>f.Mode()\<close>; \<open>Content\<close> are the bytes
  its reader delivers and \<open>ReadErr\<close> the error the reader ends with, if any.
\<close>

record entry =
  Name :: string
  IsDir :: bool
  Mode :: FileMode
  Content :: string
  ReadErr :: "error option"

text \<open>\<^verbatim>\<open>uncompressFile\<close> (lines 309-345 of the source). The result is the returned error
  (\<open>None\<close> is \<^verbatim>\<open>nil\<close>) and the filesystem afterwards. \<open>local_path\<close> is the computation of
  \<^verbatim>\<open>localFile\<close> (lines 314-325): \<open>Inl\<close> when no path segment is left.\<close>

definition local_path :: "string \<Rightarrow> string \<Rightarrow> error + string" where
  "local_path localRootDirectory nm =
     (let paths = FieldsFunc nm in
      if length paths = 0 then Inl IncorrectPath
      else Inr (Join (paths[0 := localRootDirectory])))"

definition uncompressFile :: "string \<Rightarrow> entry \<Rightarrow> filesys \<Rightarrow> error option \<times> filesys" where
  "uncompressFile localRootDirectory f fs =
     (case local_path localRootDirectory (Name f) of
        Inl err \<Rightarrow> (Some err, fs)
      | Inr localFile \<Rightarrow>
          if IsDir f then
            (if \<not> Exists fs localFile then Mkdir fs localFile (Perm (Mode f))
             else (None, fs))
          else
            (case Create fs localFile of
               (Some err, fs') \<Rightarrow> (Some err, fs')
             | (None, fs') \<Rightarrow> (ReadErr f, write_file fs' localFile (Content f))))"

section \<open>The upload walker\<close>

text \<open>
  The directory tree that \<^verbatim>\<open>filepath.Walk\<close> finds at \<^verbatim>\<open>localDirectoy\<close>: a file with its
  mode and bytes, or a directory with its mode and its entries in the order
  \<^verbatim>\<open>filepath.Walk\<close> visits them (sorted by name). The \<^typ>\<open>errno option\<close> of a node is the
  error \<^verbatim>\<open>os.Open\<close> fails with on it, \<open>None\<close> when it can be opened.
\<close>

datatype fnode =
    FFile FileMode string "errno option"
  | FDir FileMode "errno option" "(string \<times> fnode) list"

fun fnode_mode :: "fnode \<Rightarrow> FileMode" where
  "fnode_mode (FFile m _ _) = m"
| "fnode_mode (FDir m _ _) = m"

fun fnode_isDir :: "fnode \<Rightarrow> bool" where
  "fnode_isDir (FFile _ _ _) = False"
| "fnode_isDir (FDir _ _ _) = True"

fun fnode_bytes :: "fnode \<Rightarrow> string" where
  "fnode_bytes (FFile _ bytes _) = bytes"
| "fnode_bytes (FDir _ _ _) = []"

fun fnode_open :: "fnode \<Rightarrow> errno option" where
  "fnode_open (FFile _ _ oe) = oe"
| "fnode_open (FDir _ oe _) = oe"

text \<open>Lines 151-158 of the source: the name of the archive entry for the node at \<open>path\<close>,
  on an operating system whose separator is \<open>sep\<close>.\<close>

definition customName_sep :: "char \<Rightarrow> string \<Rightarrow> string \<Rightarrow> error + string" where
  "customName_sep sep localDirectoy path =
     (let customName = TrimPrefix path localDirectoy in
      if length customName = 0 then Inl (UnexpectedPath path)
      else
        let customName = ToSlash_sep sep customName in
        Inr (if hd customName \<noteq> CHR ''/'' then CHR ''/'' # customName else customName))"

text \<open>\<^verbatim>\<open>compression.Write\<close>: the entry is appended to the archive written so far. A
  failure of the archive writer itself (a closed pipe, for example) is not part of the
  model.\<close>

definition compression_Write :: "entry list \<Rightarrow> entry \<Rightarrow> error option \<times> entry list" where
  "compression_Write ar f = (None, ar @ [f])"

text \<open>The function passed to \<^verbatim>\<open>filepath.Walk\<close> (lines 140-167). \<open>arg\<close> is \<open>Inl err\<close>
  when \<^verbatim>\<open>filepath.Walk\<close> reports an error for the path and \<open>Inr\<close> of the node otherwise;
  \<open>ar\<close> is the archive written so far.\<close>

definition walk_fn ::
  "string \<Rightarrow> string \<Rightarrow> error + fnode \<Rightarrow> entry list \<Rightarrow> error option \<times> entry list" where
  "walk_fn localDirectoy path arg ar =
     (case arg of
        Inl err \<Rightarrow> (Some err, ar)
      | Inr info \<Rightarrow>
          (case fnode_open info of
             Some e \<Rightarrow> (Some (PathError e path), ar)
           | None \<Rightarrow>
               (case customName_sep Separator localDirectoy path of
                  Inl err \<Rightarrow> (Some err, ar)
                | Inr customName \<Rightarrow>
                    compression_Write ar
                      \<lparr>Name = customName, IsDir = fnode_isDir info, Mode = fnode_mode info,
                        Content = fnode_bytes info, ReadErr = None\<rparr>)))"

text \<open>\<^verbatim>\<open>filepath.Walk\<close> with that function: the node itself first, then, for a directory
  and when the function returned no error, its entries one after the other under the path
  \<^verbatim>\<open>filepath.Join(path, name)\<close>; the first error ends the walk.\<close>

fun walk :: "string \<Rightarrow> string \<Rightarrow> fnode \<Rightarrow> entry list \<Rightarrow> error option \<times> entry list"
  and walk_names ::
    "string \<Rightarrow> string \<Rightarrow> (string \<times> fnode) list \<Rightarrow> entry list \<Rightarrow> error option \<times> entry list"
where
  "walk ld path (FFile m bytes oe) ar = walk_fn ld path (Inr (FFile m bytes oe)) ar"
| "walk ld path (FDir m oe names) ar =
     (case walk_fn ld path (Inr (FDir m oe names)) ar of
        (Some err, ar') \<Rightarrow> (Some err, ar')
      | (None, ar') \<Rightarrow> walk_names ld path names ar')"
| "walk_names ld path [] ar = (None, ar)"
| "walk_names ld path ((name, n) # rest) ar =
     (case walk ld (Join [path, name]) n ar of
        (Some err, ar') \<Rightarrow> (Some err, ar')
      | (None, ar') \<Rightarrow> walk_names ld path rest ar')"

text \<open>\<open>src\<close> is the tree found at \<open>root\<close>, \<open>None\<close> when \<^verbatim>\<open>os.Lstat(root)\<close> fails.\<close>

definition Walk :: "string \<Rightarrow> fnode option \<Rightarrow> error option \<times> entry list" where
  "Walk root src =
     (case src of
        None \<Rightarrow> walk_fn root root (Inl (PathError ENOENT root)) []
      | Some n \<Rightarrow> walk root root n [])"

section \<open>The session and its cancellation slot\<close>

text \<open>
  \<^verbatim>\<open>AWSSession\<close> (lines 25-31): the bucket and the slot \<^verbatim>\<open>cancel\<close>. The slot holds the
  function literal \<^verbatim>\<open>func() {}\<close> (\<open>Noop\<close>) or the cancel function of a context made by
  \<^verbatim>\<open>context.WithCancel\<close> (\<open>CancelCtx\<close> with the number of the context). The mutex only
  serialises accesses to the slot, so every locked section is one step of the model.
\<close>

datatype cancel_fn = Noop | CancelCtx nat

record AWSSession =
  bucket :: string
  cancel :: cancel_fn

datatype codec = Xz | Zstd

text \<open>An object of the remote store: the bytes of a plain file, or an archive written
  through one of the two codecs, given by the entries a reader gets out of it and the error
  the reader meets after them (\<open>None\<close>: the archive ends as it should).\<close>

datatype object = Raw string | Tarball codec "entry list" "error option"

text \<open>The steps of the calling goroutine that start a stage, move the data or wait for a
  stage: \<open>Go\<close> is a \<^verbatim>\<open>go func() {...}()\<close> statement, \<open>Call\<close> the same work done by a
  plain call on the calling goroutine.\<close>

datatype stage = BridgeCopy | WalkerStage | ExtractorStage

datatype event =
    Go stage
  | Call stage
  | RemotePut string
  | RemoteGet string
  | ClosePipeReader
  | ClosePipeWriter
  | ReceiveErrorChannel

text \<open>Everything a call of the package can read or change: the session, the contexts made
  so far (\<open>nctx\<close>) and those already cancelled, the local filesystem, the remote store by
  bucket and key, and the steps taken by the calling goroutine.\<close>

record world =
  sess :: AWSSession
  nctx :: nat
  cancelled :: "nat set"
  fs :: filesys
  remote :: "string \<times> string \<rightharpoonup> object"
  steps :: "event list"

text \<open>The results of the library calls the model does not compute: \<open>createErr\<close> of
  \<^verbatim>\<open>compression.Create\<close> and \<^verbatim>\<open>compression.Open\<close>, \<open>codecErr\<close> of \<^verbatim>\<open>zstd.NewWriter\<close>
  and \<^verbatim>\<open>zstd.NewReader\<close>, \<open>remoteErr\<close> of the up- or downloader (or of the credentials
  provider); \<open>wire\<close> gives the bytes of an archive object when it is fetched as a plain
  file.\<close>

record outcomes =
  createErr :: "error option"
  codecErr :: "error option"
  remoteErr :: "error option"
  wire :: "codec \<Rightarrow> entry list \<Rightarrow> error option \<Rightarrow> string"

text \<open>\<^verbatim>\<open>NewAWSSession\<close> (lines 45-64); \<open>newErr\<close> is the error of \<^verbatim>\<open>session.NewSession\<close>.\<close>

definition NewAWSSession :: "error option \<Rightarrow> string \<Rightarrow> error + AWSSession" where
  "NewAWSSession newErr bkt =
     (case newErr of
        Some err \<Rightarrow> Inl err
      | None \<Rightarrow> Inr \<lparr>bucket = bkt, cancel = Noop\<rparr>)"

text \<open>Calling the function held by the slot.\<close>

fun call_cancel :: "cancel_fn \<Rightarrow> nat set \<Rightarrow> nat set" where
  "call_cancel Noop cs = cs"
| "call_cancel (CancelCtx i) cs = insert i cs"

text \<open>\<^verbatim>\<open>Cancel\<close> (lines 301-307).\<close>

definition Cancel :: "world \<Rightarrow> world" where
  "Cancel w =
     w\<lparr>cancelled := call_cancel (cancel (sess w)) (cancelled w),
       sess := (sess w)\<lparr>cancel := Noop\<rparr>\<rparr>"

text \<open>The locked section every transfer starts with: a new context, its cancel function
  stored in the slot.\<close>

definition set_cancel :: "world \<Rightarrow> world" where
  "set_cancel w = w\<lparr>nctx := Suc (nctx w), sess := (sess w)\<lparr>cancel := CancelCtx (nctx w)\<rparr>\<rparr>"

definition step :: "event \<Rightarrow> world \<Rightarrow> world" where
  "step e w = w\<lparr>steps := steps w @ [e]\<rparr>"

definition put_object :: "string \<Rightarrow> object \<Rightarrow> world \<Rightarrow> world" where
  "put_object key obj w = w\<lparr>remote := (remote w)((bucket (sess w), key) \<mapsto> obj)\<rparr>"

definition get_object :: "outcomes \<Rightarrow> string \<Rightarrow> world \<Rightarrow> error + object" where
  "get_object ext key w =
     (case remoteErr ext of
        Some err \<Rightarrow> Inl err
      | None \<Rightarrow>
          (case remote w (bucket (sess w), key) of
             None \<Rightarrow> Inl (RemoteError ''NoSuchKey'')
           | Some obj \<Rightarrow> Inr obj))"

text \<open>\<^verbatim>\<open>GetCredentials\<close> (lines 66-74).\<close>

definition GetCredentials :: "outcomes \<Rightarrow> world \<Rightarrow> error option \<times> world" where
  "GetCredentials ext w = (remoteErr ext, Cancel (set_cancel w))"

text \<open>\<^verbatim>\<open>UploadFile\<close> (lines 76-99).\<close>

definition UploadFile :: "outcomes \<Rightarrow> string \<Rightarrow> string \<Rightarrow> world \<Rightarrow> error option \<times> world" where
  "UploadFile ext localFile s3FilePath w =
     (case Stat (fs w) localFile of
        Inl e \<Rightarrow> (Some (PathError e localFile), w)
      | Inr file \<Rightarrow>
          let w1 = step (RemotePut s3FilePath) (set_cancel w) in
          (case remoteErr ext of
             Some err \<Rightarrow> (Some err, Cancel w1)
           | None \<Rightarrow>
               (case file of
                  Directory _ \<Rightarrow> (Some (PathError EISDIR localFile), Cancel w1)
                | File _ bytes \<Rightarrow> (None, Cancel (put_object s3FilePath (Raw bytes) w1)))))"

text \<open>\<^verbatim>\<open>DownloadFile\<close> (lines 197-217).\<close>

fun object_bytes :: "outcomes \<Rightarrow> object \<Rightarrow> string" where
  "object_bytes ext (Raw bytes) = bytes"
| "object_bytes ext (Tarball c es t) = wire ext c es t"

definition DownloadFile :: "outcomes \<Rightarrow> string \<Rightarrow> string \<Rightarrow> world \<Rightarrow> error option \<times> world" where
  "DownloadFile ext s3FilePath localFile w =
     (case Create (fs w) localFile of
        (Some err, fs') \<Rightarrow> (Some err, w\<lparr>fs := fs'\<rparr>)
      | (None, fs') \<Rightarrow>
          let w1 = step (RemoteGet s3FilePath) (set_cancel (w\<lparr>fs := fs'\<rparr>)) in
          (case get_object ext s3FilePath w1 of
             Inl err \<Rightarrow> (Some err, Cancel w1)
           | Inr obj \<Rightarrow>
               (None, Cancel (w1\<lparr>fs := write_file (fs w1) localFile (object_bytes ext obj)\<rparr>))))"

section \<open>Compressed directories\<close>

text \<open>The \<^verbatim>\<open>switch extension\<close> of both functions (lines 104-135 and 222-252): which
  codec the key selects, \<open>None\<close> in the \<^verbatim>\<open>default\<close> case.\<close>

definition select_codec :: "string \<Rightarrow> codec option" where
  "select_codec s3FilePath =
     (let extension = ToLower (Ext s3FilePath) in
      if extension = ''.xz'' then Some Xz
      else if extension = ''.zstd'' then Some Zstd
      else None)"

text \<open>The two \<^verbatim>\<open>case\<close> bodies of the upload (lines 109-132): an error is an early
  \<^verbatim>\<open>return err\<close>.\<close>

fun upload_case :: "outcomes \<Rightarrow> codec \<Rightarrow> world \<Rightarrow> error option \<times> world" where
  "upload_case ext Xz w = (createErr ext, w)"
| "upload_case ext Zstd w =
     (case createErr ext of
        Some err \<Rightarrow> (Some err, w)
      | None \<Rightarrow>
          (case codecErr ext of
             Some err \<Rightarrow> (Some err, w)
           | None \<Rightarrow> (None, step (Go BridgeCopy) w)))"

text \<open>The goroutine of lines 139-172: the walk, \<^verbatim>\<open>compression.Close()\<close>, and the error
  sent on \<^verbatim>\<open>errorChannel\<close>. The result is that error and the entries of the archive.\<close>

definition walker_stage :: "string \<Rightarrow> fnode option \<Rightarrow> error option \<times> entry list" where
  "walker_stage localDirectoy src = Walk localDirectoy src"

text \<open>Lines 188-194, what the calling goroutine does once \<^verbatim>\<open>UploadWithContext\<close> has
  returned \<open>putErr\<close>: the error the function returns and the steps taken; \<open>stageErr\<close> is the
  error the walker goroutine sends on \<^verbatim>\<open>errorChannel\<close>.\<close>

definition upload_after_put :: "error option \<Rightarrow> error option \<Rightarrow> error option \<times> event list" where
  "upload_after_put putErr stageErr =
     (case putErr of
        Some err \<Rightarrow> (Some err, [])
      | None \<Rightarrow> (stageErr, [ClosePipeReader, ReceiveErrorChannel]))"

text \<open>Lines 291-297, the same for the download once \<^verbatim>\<open>DownloadWithContext\<close> has returned
  \<open>getErr\<close>.\<close>

definition download_after_get :: "error option \<Rightarrow> error option \<Rightarrow> error option \<times> event list" where
  "download_after_get getErr stageErr =
     (case getErr of
        Some err \<Rightarrow> (Some err, [ClosePipeWriter])
      | None \<Rightarrow> (stageErr, [ClosePipeWriter, ReceiveErrorChannel]))"

definition steps_taken :: "event list \<Rightarrow> world \<Rightarrow> world" where
  "steps_taken es w = w\<lparr>steps := steps w @ es\<rparr>"

text \<open>
  \<^verbatim>\<open>UploadCompressedDirectory\<close> (lines 101-195); \<open>src\<close> is the tree found at
  \<^verbatim>\<open>localDirectoy\<close>. The model is sequential: it gives the result of a run in which the
  stages run to their end and the pipes deliver every byte in order; the steps of the calling
  goroutine are recorded in the order of the source. The object stored on a successful put
  holds the entries the walker wrote before it stopped.
\<close>

definition UploadCompressedDirectory ::
  "outcomes \<Rightarrow> fnode option \<Rightarrow> string \<Rightarrow> string \<Rightarrow> world \<Rightarrow> error option \<times> world" where
  "UploadCompressedDirectory ext src localDirectoy s3FilePath w =
     (case select_codec s3FilePath of
        None \<Rightarrow> (Some (UnknownExtension s3FilePath), w)
      | Some c \<Rightarrow>
          (case upload_case ext c w of
             (Some err, w1) \<Rightarrow> (Some err, w1)
           | (None, w1) \<Rightarrow>
               let (stageErr, ar) = walker_stage localDirectoy src;
                   w2 = step (RemotePut s3FilePath) (set_cancel (step (Go WalkerStage) w1));
                   w3 = (case remoteErr ext of
                           Some err \<Rightarrow> w2
                         | None \<Rightarrow> put_object s3FilePath (Tarball c ar None) w2);
                   (err, evs) = upload_after_put (remoteErr ext) stageErr
               in (err, Cancel (steps_taken evs w3))))"

text \<open>The two \<^verbatim>\<open>case\<close> bodies of the download (lines 227-249): an error is an early
  \<^verbatim>\<open>return err\<close>. In the \<^verbatim>\<open>.zstd\<close> case \<^verbatim>\<open>io.Copy(outZstd, d)\<close> is a plain call on
  the calling goroutine, and its error is overwritten by the one of \<^verbatim>\<open>compression.Open\<close>.\<close>

fun download_case :: "outcomes \<Rightarrow> codec \<Rightarrow> world \<Rightarrow> error option \<times> world" where
  "download_case ext Xz w = (createErr ext, w)"
| "download_case ext Zstd w =
     (case codecErr ext of
        Some err \<Rightarrow> (Some err, w)
      | None \<Rightarrow>
          let w1 = step (Call BridgeCopy) w in
          (createErr ext, w1))"

text \<open>An entry as \<^verbatim>\<open>compression.Read\<close> hands it out: its \<^verbatim>\<open>f.Name()\<close> is the name of the
  \<^verbatim>\<open>fs.FileInfo\<close> made from the tar header, which is the base name of the recorded name
  (of the cleaned name for a directory).\<close>

definition read_back :: "entry \<Rightarrow> entry" where
  "read_back f = f\<lparr>Name := (if IsDir f then Base (Clean (Name f)) else Base (Name f))\<rparr>"

text \<open>What \<^verbatim>\<open>compression.Read\<close> delivers from an object: its entries, then the error of
  the read after the last entry (\<^verbatim>\<open>io.EOF\<close> at the regular end of the archive).\<close>

fun read_entries :: "codec \<Rightarrow> object \<Rightarrow> entry list \<times> error" where
  "read_entries c (Raw bytes) = ([], StreamError ''not an archive'')"
| "read_entries c (Tarball c' es t) =
     (if c = c' then (map read_back es, case t of None \<Rightarrow> EOF | Some err \<Rightarrow> err)
      else ([], StreamError ''not an archive''))"

text \<open>The \<^verbatim>\<open>for\<close> loop of lines 258-268. Its \<^verbatim>\<open>err\<close> is the variable declared by
  \<^verbatim>\<open>f, err := compression.Read()\<close> inside the loop body; the result is the value of that
  variable at the \<^verbatim>\<open>break\<close>, and the filesystem; \<open>final\<close> is the error of the read after
  the last entry.\<close>

fun read_loop :: "string \<Rightarrow> entry list \<Rightarrow> error \<Rightarrow> filesys \<Rightarrow> error \<times> filesys" where
  "read_loop localRootDirectory [] final fs0 = (final, fs0)"
| "read_loop localRootDirectory (f # rest) final fs0 =
     (case uncompressFile localRootDirectory f fs0 of
        (Some err, fs1) \<Rightarrow> (err, fs1)
      | (None, fs1) \<Rightarrow> read_loop localRootDirectory rest final fs1)"

text \<open>The goroutine of lines 256-276. \<open>err\<close> is the variable of line 257
  (\<^verbatim>\<open>var err error\<close>), which the loop never assigns; the result is the error sent on
  \<^verbatim>\<open>errorChannel\<close> and the filesystem.\<close>

definition extractor_stage ::
  "string \<Rightarrow> entry list \<times> error \<Rightarrow> filesys \<Rightarrow> error option \<times> filesys" where
  "extractor_stage localRootDirectory stream fs0 =
     (let err = None;
          (loopErr, fs1) = read_loop localRootDirectory (fst stream) (snd stream) fs0;
          err = (if err = Some EOF then None else err)
      in (err, fs1))"

text \<open>
  \<^verbatim>\<open>DownloadCompressedDirectory\<close> (lines 219-299), sequential like the upload. A get that
  fails delivers no byte, so the extractor then reads nothing.
\<close>

definition DownloadCompressedDirectory ::
  "outcomes \<Rightarrow> string \<Rightarrow> string \<Rightarrow> world \<Rightarrow> error option \<times> world" where
  "DownloadCompressedDirectory ext s3FilePath localRootDirectory w =
     (case select_codec s3FilePath of
        None \<Rightarrow> (Some (UnknownExtension s3FilePath), w)
      | Some c \<Rightarrow>
          (case download_case ext c w of
             (Some err, w1) \<Rightarrow> (Some err, w1)
           | (None, w1) \<Rightarrow>
               let w2 = step (RemoteGet s3FilePath) (set_cancel (step (Go ExtractorStage) w1))
               in (case get_object ext s3FilePath w2 of
                     Inl getErr \<Rightarrow>
                       let (err, evs) = download_after_get (Some getErr) None
                       in (err, Cancel (steps_taken evs w2))
                   | Inr obj \<Rightarrow>
                       let (stageErr, fs1) =
                             extractor_stage localRootDirectory (read_entries c obj) (fs w2);
                           (err, evs) = download_after_get None stageErr
                       in (err, Cancel (steps_taken evs (w2\<lparr>fs := fs1\<rparr>))))))"

section \<open>Sequences of calls\<close>

text \<open>A client of the package calls the operations of a session one after the other;
  \<open>run_calls\<close> is the world after such a sequence, whatever the calls return.\<close>

datatype call =
    CallGetCredentials outcomes
  | CallUploadFile outcomes string string
  | CallUploadCompressedDirectory outcomes "fnode option" string string
  | CallDownloadFile outcomes string string
  | CallDownloadCompressedDirectory outcomes string string
  | CallCancel

fun run_call :: "call \<Rightarrow> world \<Rightarrow> world" where
  "run_call (CallGetCredentials ext) w = snd (GetCredentials ext w)"
| "run_call (CallUploadFile ext localFile key) w = snd (UploadFile ext localFile key w)"
| "run_call (CallUploadCompressedDirectory ext src localDirectoy key) w =
     snd (UploadCompressedDirectory ext src localDirectoy key w)"
| "run_call (CallDownloadFile ext key localFile) w = snd (DownloadFile ext key localFile w)"
| "run_call (CallDownloadCompressedDirectory ext key localRootDirectory) w =
     snd (DownloadCompressedDirectory ext key localRootDirectory w)"
| "run_call CallCancel w = Cancel w"

fun run_calls :: "call list \<Rightarrow> world \<Rightarrow> world" where
  "run_calls [] w = w"
| "run_calls (c # cs) w = run_calls cs (run_call c w)"

section \<open>Notions used in the statements\<close>




section \<open>Concrete inputs\<close>

text \<open>The filesystems, entries, trees and worlds at which the theorems below are
  evaluated. Modes are written in hexadecimal: \<open>0x1ED\<close> is 0755, \<open>0x1E8\<close> is 0750, \<open>0x1A4\<close> is
  0644, \<open>0x1B6\<close> is 0666, \<open>0x80000000\<close> is the directory bit of a \<^verbatim>\<open>fs.FileMode\<close> and
  \<open>0x400\<close> its setgid bit as the tar reader reports it.\<close>

definition out_fs :: filesys where
  "out_fs =
     \<lparr>nodes = [''.'' \<mapsto> Directory 0x1ED, ''out'' \<mapsto> Directory 0x1ED,
               ''out/a.txt'' \<mapsto> File 0x1B6 ''hi''],
       statFail = Map.empty\<rparr>"

definition denied_fs :: filesys where
  "denied_fs =
     \<lparr>nodes = [''.'' \<mapsto> Directory 0x1ED, ''out'' \<mapsto> Directory 0],
       statFail = [''out/sub'' \<mapsto> EACCES]\<rparr>"

definition sub_entry :: entry where
  "sub_entry =
     \<lparr>Name = ''/root/sub'', IsDir = True, Mode = 0x800001ED, Content = [], ReadErr = None\<rparr>"

definition private_dir_entry :: entry where
  "private_dir_entry =
     \<lparr>Name = ''/root/sub'', IsDir = True, Mode = 0x800005E8, Content = [], ReadErr = None\<rparr>"

definition below_file_entry :: entry where
  "below_file_entry =
     \<lparr>Name = ''/root/a.txt/child'', IsDir = True, Mode = 0x800001ED, Content = [],
       ReadErr = None\<rparr>"

definition deep_dir_entry :: entry where
  "deep_dir_entry =
     \<lparr>Name = ''/root/x/y'', IsDir = True, Mode = 0x800001ED, Content = [], ReadErr = None\<rparr>"

definition deep_file_entry :: entry where
  "deep_file_entry =
     \<lparr>Name = ''/root/x/b.txt'', IsDir = False, Mode = 0x1A4, Content = ''b'', ReadErr = None\<rparr>"

definition no_name_entry :: entry where
  "no_name_entry =
     \<lparr>Name = ''//'', IsDir = False, Mode = 0x1A4, Content = ''x'', ReadErr = None\<rparr>"

definition scenario_tree :: fnode where
  "scenario_tree =
     FDir 0x800001ED None
       [(''a.txt'', FFile 0x1A4 ''hi'' None), (''sub'', FDir 0x800001ED None [])]"

definition all_ok :: outcomes where
  "all_ok = \<lparr>createErr = None, codecErr = None, remoteErr = None, wire = (\<lambda>c es t. [])\<rparr>"

definition start_world :: world where
  "start_world =
     \<lparr>sess = \<lparr>bucket = ''bucket'', cancel = Noop\<rparr>, nctx = 0, cancelled = {},
       fs = \<lparr>nodes = [''.'' \<mapsto> Directory 0x1ED, ''out'' \<mapsto> Directory 0x1ED],
              statFail = Map.empty\<rparr>,
       remote = Map.empty, steps = []\<rparr>"

definition put_fails :: outcomes where
  "put_fails = all_ok\<lparr>remoteErr := Some (RemoteError ''put failed'')\<rparr>"

definition get_fails :: outcomes where
  "get_fails = all_ok\<lparr>remoteErr := Some (RemoteError ''get failed'')\<rparr>"

definition a_txt_entry :: entry where
  "a_txt_entry =
     \<lparr>Name = ''/a.txt'', IsDir = False, Mode = 0x1A4, Content = ''hi'', ReadErr = None\<rparr>"

definition sub_dir_entry :: entry where
  "sub_dir_entry =
     \<lparr>Name = ''/sub'', IsDir = True, Mode = 0x800001ED, Content = [], ReadErr = None\<rparr>"

definition uploaded_world :: world where
  "uploaded_world =
     snd (UploadCompressedDirectory all_ok (Some scenario_tree) ''root'' ''backup.zstd''
            start_world)"

definition file_world :: world where
  "file_world =
     \<lparr>sess = \<lparr>bucket = ''bucket'', cancel = CancelCtx 7\<rparr>, nctx = 8, cancelled = {},
       fs = out_fs, remote = [(''bucket'', ''key'') \<mapsto> Raw ''remote bytes''], steps = []\<rparr>"

definition broken_world :: world where
  "broken_world =
     start_world\<lparr>remote := [(''bucket'', ''backup.xz'') \<mapsto> Tarball Xz [deep_file_entry] None]\<rparr>"

definition corrupt_world :: world where
  "corrupt_world =
     start_world\<lparr>remote :=
       [(''bucket'', ''backup.xz'') \<mapsto> Tarball Xz [] (Some (StreamError ''corrupt''))]\<rparr>"

section \<open>Paths\<close>

lemma fields_from_nonempty: "[] \<notin> set (fields_from cur s)"
  by (induction s arbitrary: cur) auto

lemma fields_from_concat:
  "concat (fields_from cur s) = cur @ filter (\<lambda>c. c \<noteq> CHR ''/'') s"
  by (induction s arbitrary: cur) auto

lemma fields_from_double:
  "fields_from cur (a @ CHR ''/'' # CHR ''/'' # b) = fields_from cur (a @ CHR ''/'' # b)"
  by (induction a arbitrary: cur) auto

lemma local_path_cases:
  "local_path root nm =
     (case FieldsFunc nm of [] \<Rightarrow> Inl IncorrectPath | seg # rest \<Rightarrow> Inr (Join (root # rest)))"
  by (cases "FieldsFunc nm") (simp_all add: local_path_def)

lemma local_path_sub: "local_path ''out'' ''/root/sub'' = Inr ''out/sub''"
  by (simp add: local_path_def FieldsFunc_def Join_def Clean_def clean_step_def)

lemma local_path_deep_dir: "local_path ''out'' ''/root/x/y'' = Inr ''out/x/y''"
  by (simp add: local_path_def FieldsFunc_def Join_def Clean_def clean_step_def)

lemma local_path_deep_file: "local_path ''out'' ''/root/x/b.txt'' = Inr ''out/x/b.txt''"
  by (simp add: local_path_def FieldsFunc_def Join_def Clean_def clean_step_def)

lemma Dir_out_sub: "Dir ''out/sub'' = ''out''"
  by (simp add: Dir_def Clean_def FieldsFunc_def clean_step_def)

lemma Dir_out_x_y: "Dir ''out/x/y'' = ''out/x''"
  by (simp add: Dir_def Clean_def FieldsFunc_def clean_step_def)

lemma Dir_out_x_b: "Dir ''out/x/b.txt'' = ''out/x''"
  by (simp add: Dir_def Clean_def FieldsFunc_def clean_step_def)

text \<open>
  Claim C6. For every archive entry processed by \<^verbatim>\<open>uncompressFile\<close>, the entry name is
  split into segments on the slash without ever producing an empty segment: no segment is
  empty, no segment holds a slash, the segments together are the name without its slashes,
  and two consecutive separators give the same segments as one. If no segment remains the
  function returns the "incorrect path" error (and leaves the filesystem alone); otherwise the
  first segment is replaced by the caller's target root directory and the result is joined
  with the remaining segments into the local destination path.
\<close>

theorem uncompressFile_path_segments:
  "[] \<notin> set (FieldsFunc nm) \<and>
   CHR ''/'' \<notin> set (concat (FieldsFunc nm)) \<and>
   concat (FieldsFunc nm) = filter (\<lambda>c. c \<noteq> CHR ''/'') nm \<and>
   FieldsFunc (a @ ''//'' @ b) = FieldsFunc (a @ ''/'' @ b) \<and>
   (FieldsFunc (Name f) = [] \<longrightarrow>
      uncompressFile localRootDirectory f fs0 = (Some IncorrectPath, fs0)) \<and>
   (\<forall>seg rest. FieldsFunc nm = seg # rest \<longrightarrow>
      local_path localRootDirectory nm = Inr (Join (localRootDirectory # rest)))"
proof -
  have "[] \<notin> set (FieldsFunc nm)"
    by (simp add: FieldsFunc_def fields_from_nonempty)
  moreover have c: "concat (FieldsFunc nm) = filter (\<lambda>c. c \<noteq> CHR ''/'') nm"
    by (simp add: FieldsFunc_def fields_from_concat)
  moreover have "CHR ''/'' \<notin> set (concat (FieldsFunc nm))"
    unfolding c by simp
  moreover have "FieldsFunc (a @ ''//'' @ b) = FieldsFunc (a @ ''/'' @ b)"
    using fields_from_double [of "[]" a b] by (simp add: FieldsFunc_def)
  moreover have "FieldsFunc (Name f) = [] \<longrightarrow>
      uncompressFile localRootDirectory f fs0 = (Some IncorrectPath, fs0)"
    by (simp add: uncompressFile_def local_path_cases)
  moreover have "\<forall>seg rest. FieldsFunc nm = seg # rest \<longrightarrow>
      local_path localRootDirectory nm = Inr (Join (localRootDirectory # rest))"
    by (simp add: local_path_cases)
  ultimately show ?thesis by blast
qed

theorem uncompressFile_path_segments_witness:
  "FieldsFunc (Name no_name_entry) = [] \<and>
   uncompressFile ''out'' no_name_entry out_fs = (Some IncorrectPath, out_fs) \<and>
   FieldsFunc ''/root//sub/a.txt'' = [''root'', ''sub'', ''a.txt''] \<and>
   local_path ''out'' ''/root//sub/a.txt'' = Inr ''out/sub/a.txt''"
proof -
  have e: "FieldsFunc (Name no_name_entry) = []"
    by (simp add: no_name_entry_def FieldsFunc_def)
  have s: "FieldsFunc ''/root//sub/a.txt'' = [''root'', ''sub'', ''a.txt'']"
    by (simp add: FieldsFunc_def)
  have j: "Join [''out'', ''sub'', ''a.txt''] = ''out/sub/a.txt''"
    by (simp add: Join_def Clean_def FieldsFunc_def clean_step_def)
  from uncompressFile_path_segments [of "''/root//sub/a.txt''" "[]" "[]" no_name_entry "''out''" out_fs] e s j
  show ?thesis by simp
qed

section \<open>Extraction of one entry\<close>

lemma Exists_iff: "Exists fs0 path \<longleftrightarrow> Stat fs0 path \<noteq> Inl ENOENT"
  by (auto simp: Exists_def is_ErrNotExist_def split: sum.splits)

lemma uncompressFile_dir:
  "local_path root (Name f) = Inr p \<Longrightarrow> IsDir f \<Longrightarrow>
   uncompressFile root f fs0 =
     (if Exists fs0 p then (None, fs0) else Mkdir fs0 p (Perm (Mode f)))"
  by (simp add: uncompressFile_def)

lemma Mkdir_created:
  "resolve_err fs0 p = None \<Longrightarrow> nodes fs0 p = None \<Longrightarrow>
   nodes fs0 (Dir p) = Some (Directory m) \<Longrightarrow>
   Mkdir fs0 p perm = (None, fs0\<lparr>nodes := (nodes fs0)(p \<mapsto> Directory perm)\<rparr>)"
  by (simp add: Mkdir_def)

lemma Mkdir_no_parent:
  "\<forall>m. nodes fs0 (Dir p) \<noteq> Some (Directory m) \<Longrightarrow> \<exists>err. Mkdir fs0 p perm = (Some err, fs0)"
  by (auto simp: Mkdir_def split: option.splits node.splits)

lemma Create_unchanged_on_error:
  "fst (Create fs0 p) \<noteq> None \<Longrightarrow> snd (Create fs0 p) = fs0"
  by (auto simp: Create_def split: option.splits node.splits)

lemma not_Exists_absent: "\<not> Exists fs0 p \<Longrightarrow> resolve_err fs0 p = None \<Longrightarrow> nodes fs0 p = None"
  by (auto simp: Exists_def Stat_def is_ErrNotExist_def split: option.splits sum.splits)

lemma ancestors_out_sub: "ancestors ''out/sub'' = [''out'']"
  by (simp add: ancestors_def FieldsFunc_def)

lemma ancestors_out_x_y: "ancestors ''out/x/y'' = [''out'', ''out/x'']"
  by (simp add: ancestors_def FieldsFunc_def)

lemma ancestors_out_x_b: "ancestors ''out/x/b.txt'' = [''out'', ''out/x'']"
  by (simp add: ancestors_def FieldsFunc_def)

lemma ancestors_out_a_child: "ancestors ''out/a.txt/child'' = [''out'', ''out/a.txt'']"
  by (simp add: ancestors_def FieldsFunc_def)

lemma local_path_child: "local_path ''out'' ''/root/a.txt/child'' = Inr ''out/a.txt/child''"
  by (simp add: local_path_def FieldsFunc_def Join_def Clean_def clean_step_def)

text \<open>
  Claim C7. Directory creation during extraction is idempotent. For every directory entry
  with destination \<open>p\<close>: if \<open>p\<close> already exists, \<^verbatim>\<open>uncompressFile\<close> returns no error and
  leaves the filesystem as it is; if \<open>p\<close> is absent and its parent is a directory, \<open>p\<close> is
  created as a directory whose permission bits are the nine permission bits of the mode
  recorded in the entry (the mode and \<open>0x1FF\<close>, octal 0777), and nothing else changes; if
  \<open>p\<close> is absent and its parent is missing or not a directory, the call returns an error and
  leaves the filesystem, with everything extracted before, as it is. The same holds for a
  file entry whose destination cannot be created.
\<close>

theorem uncompressFile_directory_idempotent:
  assumes p: "local_path root (Name f) = Inr p"
  shows "(IsDir f \<and> Exists fs0 p \<longrightarrow> uncompressFile root f fs0 = (None, fs0)) \<and>
     (IsDir f \<and> \<not> Exists fs0 p \<and> resolve_err fs0 p = None \<and>
        (\<exists>m. nodes fs0 (Dir p) = Some (Directory m)) \<longrightarrow>
        uncompressFile root f fs0 =
          (None, fs0\<lparr>nodes := (nodes fs0)(p \<mapsto> Directory (Mode f AND 0x1FF))\<rparr>) \<and>
        nodes (snd (uncompressFile root f fs0)) p = Some (Directory (Mode f AND 0x1FF)) \<and>
        (\<forall>q. q \<noteq> p \<longrightarrow> nodes (snd (uncompressFile root f fs0)) q = nodes fs0 q)) \<and>
     (IsDir f \<and> \<not> Exists fs0 p \<and> (\<forall>m. nodes fs0 (Dir p) \<noteq> Some (Directory m)) \<longrightarrow>
        (\<exists>err. uncompressFile root f fs0 = (Some err, fs0))) \<and>
     (\<not> IsDir f \<and> fst (Create fs0 p) \<noteq> None \<longrightarrow>
        (\<exists>err. uncompressFile root f fs0 = (Some err, fs0)))"
proof -
  have a: "IsDir f \<and> Exists fs0 p \<longrightarrow> uncompressFile root f fs0 = (None, fs0)"
    using p by (simp add: uncompressFile_dir)
  have b0: "uncompressFile root f fs0 =
          (None, fs0\<lparr>nodes := (nodes fs0)(p \<mapsto> Directory (Mode f AND 0x1FF))\<rparr>)"
    if "IsDir f \<and> \<not> Exists fs0 p \<and> resolve_err fs0 p = None \<and>
        (\<exists>m. nodes fs0 (Dir p) = Some (Directory m))"
    using p that
    by (auto simp: uncompressFile_dir Perm_def dest: not_Exists_absent intro: Mkdir_created)
  have b: "IsDir f \<and> \<not> Exists fs0 p \<and> resolve_err fs0 p = None \<and>
        (\<exists>m. nodes fs0 (Dir p) = Some (Directory m)) \<longrightarrow>
        uncompressFile root f fs0 =
          (None, fs0\<lparr>nodes := (nodes fs0)(p \<mapsto> Directory (Mode f AND 0x1FF))\<rparr>) \<and>
        nodes (snd (uncompressFile root f fs0)) p = Some (Directory (Mode f AND 0x1FF)) \<and>
        (\<forall>q. q \<noteq> p \<longrightarrow> nodes (snd (uncompressFile root f fs0)) q = nodes fs0 q)"
    using b0 by simp
  have c: "IsDir f \<and> \<not> Exists fs0 p \<and> (\<forall>m. nodes fs0 (Dir p) \<noteq> Some (Directory m)) \<longrightarrow>
        (\<exists>err. uncompressFile root f fs0 = (Some err, fs0))"
    using p Mkdir_no_parent [of fs0 p "Perm (Mode f)"] by (simp add: uncompressFile_dir)
  have d: "\<not> IsDir f \<and> fst (Create fs0 p) \<noteq> None \<longrightarrow>
        (\<exists>err. uncompressFile root f fs0 = (Some err, fs0))"
    using p Create_unchanged_on_error [of fs0 p]
    by (cases "Create fs0 p") (auto simp: uncompressFile_def)
  from a b c d show ?thesis by blast
qed

theorem uncompressFile_directory_idempotent_witness:
  "uncompressFile ''out'' private_dir_entry out_fs =
     (None, out_fs\<lparr>nodes := (nodes out_fs)(''out/sub'' \<mapsto> Directory 0x1E8)\<rparr>) \<and>
   Mode private_dir_entry = 0x800005E8 \<and>
   nodes (snd (uncompressFile ''out'' private_dir_entry out_fs)) ''out/sub'' =
     Some (Directory 0x1E8) \<and>
   nodes (snd (uncompressFile ''out'' private_dir_entry out_fs)) ''out/a.txt'' =
     Some (File 0x1B6 ''hi'') \<and>
   uncompressFile ''out'' private_dir_entry (snd (uncompressFile ''out'' private_dir_entry out_fs)) =
     (None, snd (uncompressFile ''out'' private_dir_entry out_fs)) \<and>
   uncompressFile ''out'' below_file_entry out_fs = (None, out_fs) \<and>
   (\<exists>err. uncompressFile ''out'' deep_dir_entry out_fs = (Some err, out_fs)) \<and>
   (\<exists>err. uncompressFile ''out'' deep_file_entry out_fs = (Some err, out_fs))"
proof -
  let ?fs1 = "out_fs\<lparr>nodes := (nodes out_fs)(''out/sub'' \<mapsto> Directory 0x1E8)\<rparr>"
  have l: "local_path ''out'' (Name private_dir_entry) = Inr ''out/sub''"
    by (simp add: private_dir_entry_def local_path_sub)
  have d: "IsDir private_dir_entry" by (simp add: private_dir_entry_def)
  have s: "resolve_err out_fs ''out/sub'' = None"
    by (simp add: resolve_err_def ancestors_out_sub is_file_def out_fs_def)
  have e: "\<not> Exists out_fs ''out/sub''"
    using s by (simp add: Exists_def Stat_def out_fs_def is_ErrNotExist_def)
  have n: "nodes out_fs (Dir ''out/sub'') = Some (Directory 0x1ED)"
    by (simp add: Dir_out_sub out_fs_def)
  have m: "Mode private_dir_entry = 0x800005E8" by (simp add: private_dir_entry_def)
  have m': "Mode private_dir_entry AND 0x1FF = 0x1E8" by (simp add: private_dir_entry_def)
  from uncompressFile_directory_idempotent [OF l, of out_fs] d e s n
  have first: "uncompressFile ''out'' private_dir_entry out_fs = (None, ?fs1)"
    unfolding m' by blast
  have s1: "resolve_err ?fs1 ''out/sub'' = None"
    by (simp add: resolve_err_def ancestors_out_sub is_file_def out_fs_def)
  have e1: "Exists ?fs1 ''out/sub''"
    using s1 by (simp add: Exists_def Stat_def)
  from uncompressFile_directory_idempotent [OF l, of ?fs1] d e1
  have again: "uncompressFile ''out'' private_dir_entry ?fs1 = (None, ?fs1)"
    by blast
  have l4: "local_path ''out'' (Name below_file_entry) = Inr ''out/a.txt/child''"
    by (simp add: below_file_entry_def local_path_child)
  have d4: "IsDir below_file_entry" by (simp add: below_file_entry_def)
  have s4: "resolve_err out_fs ''out/a.txt/child'' = Some ENOTDIR"
    by (simp add: resolve_err_def ancestors_out_a_child is_file_def out_fs_def)
  have e4: "Exists out_fs ''out/a.txt/child''"
    using s4 by (simp add: Exists_def Stat_def is_ErrNotExist_def)
  from uncompressFile_directory_idempotent [OF l4, of out_fs] d4 e4
  have below: "uncompressFile ''out'' below_file_entry out_fs = (None, out_fs)"
    by blast
  have l2: "local_path ''out'' (Name deep_dir_entry) = Inr ''out/x/y''"
    by (simp add: deep_dir_entry_def local_path_deep_dir)
  have d2: "IsDir deep_dir_entry" by (simp add: deep_dir_entry_def)
  have s2: "resolve_err out_fs ''out/x/y'' = None"
    by (simp add: resolve_err_def ancestors_out_x_y is_file_def out_fs_def)
  have e2: "\<not> Exists out_fs ''out/x/y''"
    using s2 by (simp add: Exists_def Stat_def out_fs_def is_ErrNotExist_def)
  have n2: "\<forall>m. nodes out_fs (Dir ''out/x/y'') \<noteq> Some (Directory m)"
    by (simp add: Dir_out_x_y out_fs_def)
  from uncompressFile_directory_idempotent [OF l2, of out_fs] d2 e2 n2
  have deep: "\<exists>err. uncompressFile ''out'' deep_dir_entry out_fs = (Some err, out_fs)"
    by blast
  have l3: "local_path ''out'' (Name deep_file_entry) = Inr ''out/x/b.txt''"
    by (simp add: deep_file_entry_def local_path_deep_file)
  have d3: "\<not> IsDir deep_file_entry" by (simp add: deep_file_entry_def)
  have s3: "resolve_err out_fs ''out/x/b.txt'' = None"
    by (simp add: resolve_err_def ancestors_out_x_b is_file_def out_fs_def)
  have c3: "fst (Create out_fs ''out/x/b.txt'') \<noteq> None"
    using s3 by (simp add: Create_def Dir_out_x_b out_fs_def)
  from uncompressFile_directory_idempotent [OF l3, of out_fs] d3 c3
  have fcase: "\<exists>err. uncompressFile ''out'' deep_file_entry out_fs = (Some err, out_fs)"
    by blast
  have kept: "nodes ?fs1 ''out/a.txt'' = Some (File 0x1B6 ''hi'')"
    by (simp add: out_fs_def)
  from first again below deep fcase kept m show ?thesis by simp
qed

text \<open>
  Claim C10. For every path, \<^verbatim>\<open>Exists\<close> returns false only when the underlying stat fails
  with a not-exist error; when stat fails with any other error (for example permission
  denied), \<^verbatim>\<open>Exists\<close> returns true, and \<^verbatim>\<open>uncompressFile\<close> on a directory entry with that
  destination then returns no error and leaves the filesystem as it is: the directory is not
  created and the failure of stat is not reported.
\<close>

theorem Exists_true_on_other_stat_errors:
  "(Exists fs0 path \<longleftrightarrow> Stat fs0 path \<noteq> Inl ENOENT) \<and>
   (\<forall>e. Stat fs0 path = Inl e \<and> e \<noteq> ENOENT \<longrightarrow>
      Exists fs0 path \<and>
      (\<forall>root f. local_path root (Name f) = Inr path \<and> IsDir f \<longrightarrow>
         uncompressFile root f fs0 = (None, fs0)))"
  using Exists_iff [of fs0 path] by (auto simp: uncompressFile_dir)

theorem Exists_true_on_other_stat_errors_witness:
  "Stat denied_fs ''out/sub'' = Inl EACCES \<and> Exists denied_fs ''out/sub'' \<and>
   nodes denied_fs ''out/sub'' = None \<and>
   uncompressFile ''out'' sub_entry denied_fs = (None, denied_fs)"
proof -
  have s: "Stat denied_fs ''out/sub'' = Inl EACCES"
    by (simp add: Stat_def resolve_err_def denied_fs_def)
  have n: "nodes denied_fs ''out/sub'' = None"
    by (simp add: denied_fs_def)
  have l: "local_path ''out'' (Name sub_entry) = Inr ''out/sub''"
    by (simp add: sub_entry_def local_path_sub)
  have d: "IsDir sub_entry" by (simp add: sub_entry_def)
  from Exists_true_on_other_stat_errors [of denied_fs "''out/sub''"] s l d n
  show ?thesis by auto
qed

section \<open>Codec selection\<close>

lemma to_lower_char_slash [simp]: "to_lower_char c = CHR ''/'' \<longleftrightarrow> c = CHR ''/''"
  by (simp add: to_lower_char_def)

lemma to_lower_char_dot [simp]: "to_lower_char c = CHR ''.'' \<longleftrightarrow> c = CHR ''.''"
  by (simp add: to_lower_char_def)

lemma to_lower_char_idem [simp]: "to_lower_char (to_lower_char c) = to_lower_char c"
  by (simp add: to_lower_char_def)

lemma ext_scan_ToLower:
  "ext_scan (map to_lower_char cs) (map to_lower_char acc) = map to_lower_char (ext_scan cs acc)"
proof (induction cs arbitrary: acc)
  case Nil
  then show ?case by simp
next
  case (Cons c cs)
  from Cons.IH [of "c # acc"] show ?case by simp
qed

lemma Ext_ToLower: "Ext (ToLower key) = ToLower (Ext key)"
  using ext_scan_ToLower [of "rev key" "[]"] by (simp add: Ext_def ToLower_def rev_map)

lemma ToLower_idem: "ToLower (ToLower s) = ToLower s"
  by (simp add: ToLower_def)

lemma select_codec_ToLower: "select_codec (ToLower key) = select_codec key"
  by (simp add: select_codec_def Ext_ToLower ToLower_idem)

lemma select_codec_None:
  "select_codec key = None \<longleftrightarrow> ToLower (Ext key) \<noteq> ''.xz'' \<and> ToLower (Ext key) \<noteq> ''.zstd''"
  by (simp add: select_codec_def Let_def)

text \<open>
  Claim C4. For every destination key whose lower-cased extension is neither \<^verbatim>\<open>.xz\<close> nor
  \<^verbatim>\<open>.zstd\<close> (for example \<^verbatim>\<open>.tar.gz\<close>), both \<^verbatim>\<open>UploadCompressedDirectory\<close> and
  \<^verbatim>\<open>DownloadCompressedDirectory\<close> return the "unknown extension" error for that key and
  leave everything as it was: nothing is stored in the remote store, no local file or
  directory is created, no stage is started and the cancellation slot is not touched. The
  match does not depend on the case of the key: the key in lower case selects the same codec.
\<close>

theorem unknown_extension_fails_fast:
  "select_codec (ToLower key) = select_codec key \<and>
   (ToLower (Ext key) \<noteq> ''.xz'' \<and> ToLower (Ext key) \<noteq> ''.zstd'' \<longrightarrow>
      UploadCompressedDirectory ext src localDirectoy key w = (Some (UnknownExtension key), w) \<and>
      DownloadCompressedDirectory ext key localRootDirectory w = (Some (UnknownExtension key), w))"
proof -
  have "UploadCompressedDirectory ext src localDirectoy key w = (Some (UnknownExtension key), w) \<and>
      DownloadCompressedDirectory ext key localRootDirectory w = (Some (UnknownExtension key), w)"
    if "ToLower (Ext key) \<noteq> ''.xz'' \<and> ToLower (Ext key) \<noteq> ''.zstd''"
  proof -
    from that have "select_codec key = None" by (simp add: select_codec_None)
    then show ?thesis
      by (simp add: UploadCompressedDirectory_def DownloadCompressedDirectory_def)
  qed
  then show ?thesis by (simp add: select_codec_ToLower)
qed

theorem unknown_extension_fails_fast_witness:
  "ToLower (Ext ''backup.tar.gz'') = ''.gz'' \<and>
   UploadCompressedDirectory all_ok (Some scenario_tree) ''root'' ''backup.tar.gz'' start_world =
     (Some (UnknownExtension ''backup.tar.gz''), start_world) \<and>
   DownloadCompressedDirectory all_ok ''backup.tar.gz'' ''out'' start_world =
     (Some (UnknownExtension ''backup.tar.gz''), start_world) \<and>
   select_codec ''BACKUP.Zstd'' = select_codec ''backup.zstd'' \<and>
   select_codec ''backup.zstd'' = Some Zstd"
proof -
  have e: "ToLower (Ext ''backup.tar.gz'') = ''.gz''"
    by (simp add: ToLower_def Ext_def to_lower_char_def)
  have l: "ToLower ''BACKUP.Zstd'' = ''backup.zstd''"
    by (simp add: ToLower_def to_lower_char_def)
  have z: "select_codec ''backup.zstd'' = Some Zstd"
    by (simp add: select_codec_def ToLower_def Ext_def to_lower_char_def)
  from unknown_extension_fails_fast
         [of "''backup.tar.gz''" all_ok "Some scenario_tree" "''root''" start_world "''out''"]
       unknown_extension_fails_fast [of "''BACKUP.Zstd''"] e l z
  show ?thesis by simp
qed

section \<open>Names of the archive entries\<close>




















lemma customName_sep_empty:
  "TrimPrefix path ld = [] \<Longrightarrow> customName_sep sep ld path = Inl (UnexpectedPath path)"
  by (simp add: customName_sep_def del: TrimPrefix.simps)


lemma walk_fn_empty_name:
  assumes "TrimPrefix path ld = []"
  shows "fst (walk_fn ld path arg ar) \<noteq> None \<and> snd (walk_fn ld path arg ar) = ar"
    and "fnode_open info = None \<Longrightarrow> walk_fn ld path (Inr info) ar = (Some (UnexpectedPath path), ar)"
  using customName_sep_empty [OF assms, of Separator]
  by (auto simp: walk_fn_def split: sum.splits option.splits)

lemma TrimPrefix_self: "TrimPrefix root root = []"
  by simp

text \<open>Every walk returns an error at its root and writes no entry: \<^verbatim>\<open>filepath.Walk\<close>
  calls the function for the root first, and the stripped path of the root is empty.\<close>

lemma Walk_fails_at_root:
  "fst (Walk root src) \<noteq> None \<and> snd (Walk root src) = []"
proof (cases src)
  case None
  then show ?thesis by (simp add: Walk_def walk_fn_def)
next
  case (Some n)
  have e: "fst (walk_fn root root (Inr n) []) \<noteq> None \<and> snd (walk_fn root root (Inr n) []) = []"
    using walk_fn_empty_name(1) [OF TrimPrefix_self] .
  then obtain err where w: "walk_fn root root (Inr n) [] = (Some err, [])"
    by (cases "walk_fn root root (Inr n) []") auto
  show ?thesis using Some w by (cases n) (simp_all add: Walk_def)
qed





section \<open>The cancellation slot\<close>

lemma slot_Cancel [simp]: "cancel (sess (Cancel w)) = Noop"
  by (simp add: Cancel_def)

lemma slot_step [simp]: "sess (step e w) = sess w"
  by (simp add: step_def)

lemma slot_fs_update [simp]: "sess (w\<lparr>fs := x\<rparr>) = sess w"
  by simp

lemma Cancel_Noop: "cancel (sess w) = Noop \<Longrightarrow> Cancel w = w"
  by (simp add: Cancel_def)

lemma Cancel_Cancel: "Cancel (Cancel w) = Cancel w"
  by (simp add: Cancel_def)

lemma sess_upload_case: "upload_case ext c w = (r, w1) \<Longrightarrow> sess w1 = sess w"
  by (cases c) (auto split: option.splits)

lemma sess_download_case: "download_case ext c w = (r, w1) \<Longrightarrow> sess w1 = sess w"
  by (cases c) (auto simp: Let_def split: option.splits)

lemma slot_GetCredentials: "cancel (sess (snd (GetCredentials ext w))) = Noop"
  by (simp add: GetCredentials_def)

lemma slot_UploadFile:
  "cancel (sess w) = Noop \<Longrightarrow> cancel (sess (snd (UploadFile ext lf key w))) = Noop"
  by (simp add: UploadFile_def Let_def split: sum.splits option.splits node.splits)

lemma slot_DownloadFile:
  "cancel (sess w) = Noop \<Longrightarrow> cancel (sess (snd (DownloadFile ext key lf w))) = Noop"
  by (simp add: DownloadFile_def Let_def split: sum.splits option.splits prod.splits)

lemma slot_UploadCompressedDirectory:
  "cancel (sess w) = Noop \<Longrightarrow>
   cancel (sess (snd (UploadCompressedDirectory ext src ld key w))) = Noop"
  by (auto simp: UploadCompressedDirectory_def Let_def dest: sess_upload_case
      split: sum.splits option.splits prod.splits)

lemma slot_DownloadCompressedDirectory:
  "cancel (sess w) = Noop \<Longrightarrow>
   cancel (sess (snd (DownloadCompressedDirectory ext key root w))) = Noop"
  by (auto simp: DownloadCompressedDirectory_def Let_def dest: sess_download_case
      split: sum.splits option.splits prod.splits)

lemma slot_run_call: "cancel (sess w) = Noop \<Longrightarrow> cancel (sess (run_call c w)) = Noop"
  by (cases c)
    (simp_all add: slot_GetCredentials slot_UploadFile slot_DownloadFile
      slot_UploadCompressedDirectory slot_DownloadCompressedDirectory)

lemma slot_run_calls: "cancel (sess w) = Noop \<Longrightarrow> cancel (sess (run_calls cs w)) = Noop"
  by (induction cs arbitrary: w) (simp_all add: slot_run_call)


lemma UploadFile_slot_or_same:
  "cancel (sess (snd (UploadFile ext lf key v))) = Noop \<or>
   sess (snd (UploadFile ext lf key v)) = sess v"
  by (simp add: UploadFile_def Let_def split: sum.splits option.splits node.splits)

lemma DownloadFile_slot_or_same:
  "cancel (sess (snd (DownloadFile ext key lf v))) = Noop \<or>
   sess (snd (DownloadFile ext key lf v)) = sess v"
  by (simp add: DownloadFile_def Let_def split: sum.splits option.splits prod.splits)

lemma UploadCompressedDirectory_slot_or_same:
  "cancel (sess (snd (UploadCompressedDirectory ext src ld key v))) = Noop \<or>
   sess (snd (UploadCompressedDirectory ext src ld key v)) = sess v"
  by (auto simp: UploadCompressedDirectory_def Let_def dest: sess_upload_case
      split: sum.splits option.splits prod.splits)

lemma DownloadCompressedDirectory_slot_or_same:
  "cancel (sess (snd (DownloadCompressedDirectory ext key root v))) = Noop \<or>
   sess (snd (DownloadCompressedDirectory ext key root v)) = sess v"
  by (auto simp: DownloadCompressedDirectory_def Let_def dest: sess_download_case
      split: sum.splits option.splits prod.splits)

lemma ctx_upload_case:
  "upload_case ext c w = (r, w1) \<Longrightarrow>
   sess w1 = sess w \<and> nctx w1 = nctx w \<and> cancelled w1 = cancelled w"
  by (cases c) (auto simp: step_def split: option.splits)

lemma ctx_download_case:
  "download_case ext c w = (r, w1) \<Longrightarrow>
   sess w1 = sess w \<and> nctx w1 = nctx w \<and> cancelled w1 = cancelled w"
  by (cases c) (auto simp: step_def Let_def split: option.splits)

lemma ctx_GetCredentials:
  "cancel (sess (snd (GetCredentials ext v))) = Noop \<and>
   nctx (snd (GetCredentials ext v)) = Suc (nctx v) \<and>
   cancelled (snd (GetCredentials ext v)) = insert (nctx v) (cancelled v)"
  by (simp add: GetCredentials_def set_cancel_def Cancel_def)

lemma ctx_UploadFile:
  "Stat (fs v) lf = Inr file \<Longrightarrow>
   cancel (sess (snd (UploadFile ext lf key v))) = Noop \<and>
   nctx (snd (UploadFile ext lf key v)) = Suc (nctx v) \<and>
   cancelled (snd (UploadFile ext lf key v)) = insert (nctx v) (cancelled v)"
  by (simp add: UploadFile_def Let_def set_cancel_def Cancel_def step_def put_object_def
      split: option.splits node.splits)

lemma ctx_DownloadFile:
  "fst (Create (fs v) lf) = None \<Longrightarrow>
   cancel (sess (snd (DownloadFile ext key lf v))) = Noop \<and>
   nctx (snd (DownloadFile ext key lf v)) = Suc (nctx v) \<and>
   cancelled (snd (DownloadFile ext key lf v)) = insert (nctx v) (cancelled v)"
  by (cases "Create (fs v) lf")
    (simp add: DownloadFile_def Let_def set_cancel_def Cancel_def step_def
      split: sum.splits)

lemma ctx_UploadCompressedDirectory:
  assumes "select_codec key = Some c" and "fst (upload_case ext c v) = None"
  shows "cancel (sess (snd (UploadCompressedDirectory ext src ld key v))) = Noop \<and>
   nctx (snd (UploadCompressedDirectory ext src ld key v)) = Suc (nctx v) \<and>
   cancelled (snd (UploadCompressedDirectory ext src ld key v)) = insert (nctx v) (cancelled v)"
proof -
  obtain w1 where u: "upload_case ext c v = (None, w1)"
    using assms(2) by (cases "upload_case ext c v") auto
  from ctx_upload_case [OF u] assms(1) u show ?thesis
    by (simp add: UploadCompressedDirectory_def Let_def set_cancel_def Cancel_def step_def
        put_object_def steps_taken_def upload_after_put_def split: option.splits prod.splits)
qed

lemma ctx_DownloadCompressedDirectory:
  assumes "select_codec key = Some c" and "fst (download_case ext c v) = None"
  shows "cancel (sess (snd (DownloadCompressedDirectory ext key root v))) = Noop \<and>
   nctx (snd (DownloadCompressedDirectory ext key root v)) = Suc (nctx v) \<and>
   cancelled (snd (DownloadCompressedDirectory ext key root v)) = insert (nctx v) (cancelled v)"
proof -
  obtain w1 where u: "download_case ext c v = (None, w1)"
    using assms(2) by (cases "download_case ext c v") auto
  from ctx_download_case [OF u] assms(1) u show ?thesis
    by (simp add: DownloadCompressedDirectory_def Let_def set_cancel_def Cancel_def step_def
        steps_taken_def download_after_get_def split: option.splits prod.splits sum.splits)
qed

text \<open>
  Claim C9. The cancellation slot of a session always holds a function that can be called:
  \<^verbatim>\<open>NewAWSSession\<close> initialises it to the no-op, and after any sequence of calls of
  \<^verbatim>\<open>GetCredentials\<close>, \<^verbatim>\<open>UploadFile\<close>, \<^verbatim>\<open>UploadCompressedDirectory\<close>, \<^verbatim>\<open>DownloadFile\<close>,
  \<^verbatim>\<open>DownloadCompressedDirectory\<close> and \<^verbatim>\<open>Cancel\<close>, whatever they return, it holds the
  no-op again, so \<^verbatim>\<open>Cancel\<close> then changes nothing. In any state \<^verbatim>\<open>Cancel\<close> leaves the
  no-op in the slot and a second \<^verbatim>\<open>Cancel\<close> changes nothing. Each of the five operations
  either returns before touching the session, or, once it is past its early returns, starts
  its transfer: it makes exactly one new context, and the function its deferred \<^verbatim>\<open>Cancel\<close>
  calls on completion is the cancel function of that new context and of no other, so the
  function that was in the slot before has been replaced without being called; the slot
  then holds the no-op. The locked section that starts a transfer stores the cancel function
  of the new context in the slot whatever the slot held.
\<close>

theorem cancel_slot_always_noop_after_transfer:
  "NewAWSSession None bkt = Inr \<lparr>bucket = bkt, cancel = Noop\<rparr> \<and>
   cancel (sess (run_calls cs (w\<lparr>sess := \<lparr>bucket = bkt, cancel = Noop\<rparr>\<rparr>))) = Noop \<and>
   Cancel (run_calls cs (w\<lparr>sess := \<lparr>bucket = bkt, cancel = Noop\<rparr>\<rparr>)) =
     run_calls cs (w\<lparr>sess := \<lparr>bucket = bkt, cancel = Noop\<rparr>\<rparr>) \<and>
   cancel (sess (Cancel v)) = Noop \<and>
   Cancel (Cancel v) = Cancel v \<and>
   cancel (sess (set_cancel v)) = CancelCtx (nctx v) \<and>
   cancelled (set_cancel v) = cancelled v \<and>
   cancelled (Cancel (set_cancel v)) = insert (nctx v) (cancelled v) \<and>
   (cancel (sess (snd (GetCredentials ext v))) = Noop \<and>
    nctx (snd (GetCredentials ext v)) = Suc (nctx v) \<and>
    cancelled (snd (GetCredentials ext v)) = insert (nctx v) (cancelled v)) \<and>
   (cancel (sess (snd (UploadFile ext localFile key v))) = Noop \<or>
      sess (snd (UploadFile ext localFile key v)) = sess v) \<and>
   (\<forall>file. Stat (fs v) localFile = Inr file \<longrightarrow>
      cancel (sess (snd (UploadFile ext localFile key v))) = Noop \<and>
      nctx (snd (UploadFile ext localFile key v)) = Suc (nctx v) \<and>
      cancelled (snd (UploadFile ext localFile key v)) = insert (nctx v) (cancelled v)) \<and>
   (cancel (sess (snd (UploadCompressedDirectory ext src localDirectoy key v))) = Noop \<or>
      sess (snd (UploadCompressedDirectory ext src localDirectoy key v)) = sess v) \<and>
   (\<forall>c. select_codec key = Some c \<and> fst (upload_case ext c v) = None \<longrightarrow>
      cancel (sess (snd (UploadCompressedDirectory ext src localDirectoy key v))) = Noop \<and>
      nctx (snd (UploadCompressedDirectory ext src localDirectoy key v)) = Suc (nctx v) \<and>
      cancelled (snd (UploadCompressedDirectory ext src localDirectoy key v)) =
        insert (nctx v) (cancelled v)) \<and>
   (cancel (sess (snd (DownloadFile ext key localFile v))) = Noop \<or>
      sess (snd (DownloadFile ext key localFile v)) = sess v) \<and>
   (fst (Create (fs v) localFile) = None \<longrightarrow>
      cancel (sess (snd (DownloadFile ext key localFile v))) = Noop \<and>
      nctx (snd (DownloadFile ext key localFile v)) = Suc (nctx v) \<and>
      cancelled (snd (DownloadFile ext key localFile v)) = insert (nctx v) (cancelled v)) \<and>
   (cancel (sess (snd (DownloadCompressedDirectory ext key localRootDirectory v))) = Noop \<or>
      sess (snd (DownloadCompressedDirectory ext key localRootDirectory v)) = sess v) \<and>
   (\<forall>c. select_codec key = Some c \<and> fst (download_case ext c v) = None \<longrightarrow>
      cancel (sess (snd (DownloadCompressedDirectory ext key localRootDirectory v))) = Noop \<and>
      nctx (snd (DownloadCompressedDirectory ext key localRootDirectory v)) = Suc (nctx v) \<and>
      cancelled (snd (DownloadCompressedDirectory ext key localRootDirectory v)) =
        insert (nctx v) (cancelled v))"
proof -
  let ?w0 = "w\<lparr>sess := \<lparr>bucket = bkt, cancel = Noop\<rparr>\<rparr>"
  have n: "NewAWSSession None bkt = Inr \<lparr>bucket = bkt, cancel = Noop\<rparr>"
    by (simp add: NewAWSSession_def)
  have i: "cancel (sess (run_calls cs ?w0)) = Noop"
    by (rule slot_run_calls) simp
  have c: "Cancel (run_calls cs ?w0) = run_calls cs ?w0"
    using i by (rule Cancel_Noop)
  have s: "cancel (sess (set_cancel v)) = CancelCtx (nctx v) \<and>
      cancelled (set_cancel v) = cancelled v \<and>
      cancelled (Cancel (set_cancel v)) = insert (nctx v) (cancelled v)"
    by (simp add: set_cancel_def Cancel_def)
  have k: "cancel (sess (Cancel v)) = Noop \<and> Cancel (Cancel v) = Cancel v"
    by (simp add: Cancel_Cancel)
  have uf: "\<forall>file. Stat (fs v) localFile = Inr file \<longrightarrow>
      cancel (sess (snd (UploadFile ext localFile key v))) = Noop \<and>
      nctx (snd (UploadFile ext localFile key v)) = Suc (nctx v) \<and>
      cancelled (snd (UploadFile ext localFile key v)) = insert (nctx v) (cancelled v)"
    using ctx_UploadFile by blast
  have ud: "\<forall>c. select_codec key = Some c \<and> fst (upload_case ext c v) = None \<longrightarrow>
      cancel (sess (snd (UploadCompressedDirectory ext src localDirectoy key v))) = Noop \<and>
      nctx (snd (UploadCompressedDirectory ext src localDirectoy key v)) = Suc (nctx v) \<and>
      cancelled (snd (UploadCompressedDirectory ext src localDirectoy key v)) =
        insert (nctx v) (cancelled v)"
    using ctx_UploadCompressedDirectory by blast
  have df: "fst (Create (fs v) localFile) = None \<longrightarrow>
      cancel (sess (snd (DownloadFile ext key localFile v))) = Noop \<and>
      nctx (snd (DownloadFile ext key localFile v)) = Suc (nctx v) \<and>
      cancelled (snd (DownloadFile ext key localFile v)) = insert (nctx v) (cancelled v)"
    using ctx_DownloadFile by blast
  have dd: "\<forall>c. select_codec key = Some c \<and> fst (download_case ext c v) = None \<longrightarrow>
      cancel (sess (snd (DownloadCompressedDirectory ext key localRootDirectory v))) = Noop \<and>
      nctx (snd (DownloadCompressedDirectory ext key localRootDirectory v)) = Suc (nctx v) \<and>
      cancelled (snd (DownloadCompressedDirectory ext key localRootDirectory v)) =
        insert (nctx v) (cancelled v)"
    using ctx_DownloadCompressedDirectory by blast
  show ?thesis
    apply (intro conjI)
    using n i c s k ctx_GetCredentials [of ext v] uf ud df dd
      UploadFile_slot_or_same [of ext localFile key v]
      UploadCompressedDirectory_slot_or_same [of ext src localDirectoy key v]
      DownloadFile_slot_or_same [of ext key localFile v]
      DownloadCompressedDirectory_slot_or_same [of ext key localRootDirectory v]
    by blast+
qed

theorem cancel_slot_always_noop_after_transfer_witness:
  "Stat (fs file_world) ''out/a.txt'' = Inr (File 0x1B6 ''hi'') \<and>
   cancel (sess file_world) = CancelCtx 7 \<and>
   cancel (sess (snd (UploadFile all_ok ''out/a.txt'' ''key'' file_world))) = Noop \<and>
   nctx (snd (UploadFile all_ok ''out/a.txt'' ''key'' file_world)) = 9 \<and>
   cancelled (snd (UploadFile all_ok ''out/a.txt'' ''key'' file_world)) = {8} \<and>
   fst (Create (fs file_world) ''out/b.txt'') = None \<and>
   cancelled (snd (DownloadFile all_ok ''key'' ''out/b.txt'' file_world)) = {8} \<and>
   cancelled (snd (GetCredentials all_ok file_world)) = {8} \<and>
   cancel (sess (run_calls
      [CallUploadFile all_ok ''out/a.txt'' ''key'', CallCancel,
       CallDownloadFile all_ok ''key'' ''out/b.txt'', CallGetCredentials all_ok,
       CallUploadFile all_ok ''missing'' ''key'', CallCancel]
      (file_world\<lparr>sess := \<lparr>bucket = ''bucket'', cancel = Noop\<rparr>\<rparr>))) = Noop"
proof -
  have r: "resolve_err (fs file_world) ''out/a.txt'' = None"
    by (simp add: file_world_def out_fs_def resolve_err_def ancestors_def FieldsFunc_def is_file_def)
  have st: "Stat (fs file_world) ''out/a.txt'' = Inr (File 0x1B6 ''hi'')"
    using r by (simp add: Stat_def) (simp add: file_world_def out_fs_def)
  have sl: "cancel (sess file_world) = CancelCtx 7"
    by (simp add: file_world_def)
  have nc: "nctx file_world = 8 \<and> cancelled file_world = {}"
    by (simp add: file_world_def)
  have r2: "resolve_err (fs file_world) ''out/b.txt'' = None"
    by (simp add: file_world_def out_fs_def resolve_err_def ancestors_def FieldsFunc_def is_file_def)
  have d2: "Dir ''out/b.txt'' = ''out''"
    by (simp add: Dir_def Clean_def FieldsFunc_def clean_step_def)
  have cr: "fst (Create (fs file_world) ''out/b.txt'') = None"
    using r2 by (simp add: Create_def d2 file_world_def out_fs_def)
  from cancel_slot_always_noop_after_transfer
        [of "''bucket''"
          "[CallUploadFile all_ok ''out/a.txt'' ''key'', CallCancel,
            CallDownloadFile all_ok ''key'' ''out/b.txt'', CallGetCredentials all_ok,
            CallUploadFile all_ok ''missing'' ''key'', CallCancel]"
          file_world file_world all_ok "''out/a.txt''" "''key''"]
       cancel_slot_always_noop_after_transfer
        [of "''bucket''" "[]" file_world file_world all_ok "''out/b.txt''" "''key''"]
       st sl nc cr
  show ?thesis by simp
qed

section \<open>Runs on concrete inputs\<close>

lemmas run_defs =
  UploadCompressedDirectory_def DownloadCompressedDirectory_def select_codec_def ToLower_def
  Ext_def to_lower_char_def all_ok_def start_world_def step_def set_cancel_def Cancel_def
  put_object_def get_object_def walker_stage_def Walk_def scenario_tree_def walk_fn_def
  customName_sep_def extractor_stage_def put_fails_def get_fails_def broken_world_def
  corrupt_world_def Separator_def ToSlash_sep_def compression_Write_def upload_after_put_def
  download_after_get_def steps_taken_def read_back_def Base_def

lemmas extract_defs =
  uncompressFile_def local_path_def FieldsFunc_def Join_def Clean_def clean_step_def
  Create_def Dir_def a_txt_entry_def sub_dir_entry_def deep_file_entry_def resolve_err_def
  ancestors_def is_file_def

lemma upload_scenario_result:
  "fst (UploadCompressedDirectory all_ok (Some scenario_tree) ''root'' ''backup.zstd''
          start_world) = Some (UnexpectedPath ''root'')"
  by (simp add: run_defs)

lemma upload_scenario_object:
  "remote uploaded_world (''bucket'', ''backup.zstd'') = Some (Tarball Zstd [] None)"
  by (simp add: uploaded_world_def run_defs)

lemma upload_scenario_fs: "fs uploaded_world = fs start_world"
  by (simp add: uploaded_world_def run_defs)

lemma upload_scenario_bucket: "bucket (sess uploaded_world) = ''bucket''"
  by (simp add: uploaded_world_def run_defs)

lemma download_scenario:
  "fst (DownloadCompressedDirectory all_ok ''backup.zstd'' ''out'' uploaded_world) = None \<and>
   fs (snd (DownloadCompressedDirectory all_ok ''backup.zstd'' ''out'' uploaded_world)) =
     fs start_world"
  using upload_scenario_object upload_scenario_fs upload_scenario_bucket
  by (simp add: DownloadCompressedDirectory_def select_codec_def ToLower_def Ext_def
      to_lower_char_def all_ok_def step_def set_cancel_def Cancel_def get_object_def
      extractor_stage_def download_after_get_def steps_taken_def)

lemma scenario_children:
  "walk_names ''root'' ''root''
     [(''a.txt'', FFile 0x1A4 ''hi'' None), (''sub'', FDir 0x800001ED None [])] [] =
     (None, [a_txt_entry, sub_dir_entry])"
  by (simp add: run_defs extract_defs)

lemma scenario_children_extracted:
  "read_loop ''out'' [a_txt_entry, sub_dir_entry] EOF (fs start_world) =
     (PathError EISDIR ''out'', fs start_world)"
  by (simp add: run_defs extract_defs)

text \<open>
  Claim C1 (the round trip through the remote store) at its own scenario: the directory
  \<^verbatim>\<open>root\<close> holds \<^verbatim>\<open>a.txt\<close> with content "hi" and the empty directory \<^verbatim>\<open>sub\<close>, the key is
  \<^verbatim>\<open>backup.zstd\<close>, the target \<^verbatim>\<open>out\<close> is an empty directory. The upload returns the
  "unexpected path" error for \<^verbatim>\<open>root\<close>, because the walk starts at the root, whose stripped
  path is empty; the object it stores holds no entry. The download of that object returns no
  error and leaves \<^verbatim>\<open>out\<close> empty: neither \<^verbatim>\<open>out/a.txt\<close> nor \<^verbatim>\<open>out/sub\<close> exists. The
  entries the walker writes for the two children are named \<^verbatim>\<open>/a.txt\<close> and \<^verbatim>\<open>/sub\<close>;
  extracting them into \<^verbatim>\<open>out\<close> fails at the first one, whose only segment is replaced by
  the target root, so that the file would be created at \<^verbatim>\<open>out\<close> itself.
\<close>

theorem round_trip_scenario_fails:
  "fst (UploadCompressedDirectory all_ok (Some scenario_tree) ''root'' ''backup.zstd''
          start_world) = Some (UnexpectedPath ''root'') \<and>
   remote uploaded_world (''bucket'', ''backup.zstd'') = Some (Tarball Zstd [] None) \<and>
   fst (DownloadCompressedDirectory all_ok ''backup.zstd'' ''out'' uploaded_world) = None \<and>
   nodes (fs (snd (DownloadCompressedDirectory all_ok ''backup.zstd'' ''out'' uploaded_world)))
     ''out/a.txt'' = None \<and>
   nodes (fs (snd (DownloadCompressedDirectory all_ok ''backup.zstd'' ''out'' uploaded_world)))
     ''out/sub'' = None \<and>
   walk_names ''root'' ''root''
     [(''a.txt'', FFile 0x1A4 ''hi'' None), (''sub'', FDir 0x800001ED None [])] [] =
     (None, [a_txt_entry, sub_dir_entry]) \<and>
   local_path ''out'' (Name a_txt_entry) = Inr ''out'' \<and>
   read_loop ''out'' [a_txt_entry, sub_dir_entry] EOF (fs start_world) =
     (PathError EISDIR ''out'', fs start_world)"
proof -
  have n: "nodes (fs start_world) ''out/a.txt'' = None \<and> nodes (fs start_world) ''out/sub'' = None"
    by (simp add: start_world_def)
  have l: "local_path ''out'' (Name a_txt_entry) = Inr ''out''"
    by (simp add: extract_defs)
  from upload_scenario_result upload_scenario_object download_scenario n scenario_children l
    scenario_children_extracted
  show ?thesis by simp
qed

section \<open>The error of the extractor stage\<close>

lemma extractor_stage_nil: "fst (extractor_stage root stream fs0) = None"
  by (simp add: extractor_stage_def split: prod.splits)

lemma download_result_is_get_result:
  "select_codec key = Some Xz \<Longrightarrow> createErr ext = None \<Longrightarrow> remoteErr ext = None \<Longrightarrow>
   remote w (bucket (sess w), key) = Some obj \<Longrightarrow>
   fst (DownloadCompressedDirectory ext key root w) = None"
  by (simp add: DownloadCompressedDirectory_def get_object_def step_def set_cancel_def
      extractor_stage_def download_after_get_def Let_def split: prod.splits)

text \<open>
  Claim C2 (the download returns the first error of reading or extracting an entry) against
  the code: the error variable that the extractor goroutine sends on its channel is never
  assigned, because the loop declares its own \<^verbatim>\<open>err\<close>; the stage reports no error for
  every archive and every filesystem. With an archive whose only entry cannot be extracted
  (the parent of \<^verbatim>\<open>out/x/b.txt\<close> is missing, so the loop stops with that error), and with an
  archive whose first read fails with a stream error, a download whose get succeeds returns
  no error.
\<close>

theorem download_reports_no_extraction_error:
  "fst (extractor_stage localRootDirectory stream fs0) = None \<and>
   read_loop ''out'' [deep_file_entry] EOF (fs broken_world) =
     (PathError ENOENT ''out/x/b.txt'', fs broken_world) \<and>
   fst (DownloadCompressedDirectory all_ok ''backup.xz'' ''out'' broken_world) = None \<and>
   read_entries Xz (Tarball Xz [] (Some (StreamError ''corrupt''))) =
     ([], StreamError ''corrupt'') \<and>
   fst (DownloadCompressedDirectory all_ok ''backup.xz'' ''out'' corrupt_world) = None"
proof -
  have a: "read_loop ''out'' [deep_file_entry] EOF (fs broken_world) =
     (PathError ENOENT ''out/x/b.txt'', fs broken_world)"
    by (simp add: run_defs extract_defs)
  have b: "fst (DownloadCompressedDirectory all_ok ''backup.xz'' ''out'' broken_world) = None"
    by (simp add: run_defs split: prod.splits)
  have c: "fst (DownloadCompressedDirectory all_ok ''backup.xz'' ''out'' corrupt_world) = None"
    by (simp add: run_defs split: prod.splits)
  from a b c show ?thesis by (simp add: extractor_stage_nil)
qed

section \<open>Stages and the calling goroutine\<close>

text \<open>
  Claim C3 (in the \<^verbatim>\<open>.zstd\<close> paths of upload and download the copy between the zstd codec
  and the tar codec runs in a goroutine of its own) against the code: the upload starts the
  copy with a \<^verbatim>\<open>go\<close> statement before the walker and the put; the download calls
  \<^verbatim>\<open>io.Copy\<close> on the calling goroutine, before the extractor is started and before the remote
  get, and starts no goroutine for it.
\<close>

theorem download_zstd_copy_on_calling_goroutine:
  "steps (snd (UploadCompressedDirectory all_ok (Some scenario_tree) ''root'' ''backup.zstd''
                 start_world)) =
     [Go BridgeCopy, Go WalkerStage, RemotePut ''backup.zstd'', ClosePipeReader,
      ReceiveErrorChannel] \<and>
   steps (snd (DownloadCompressedDirectory all_ok ''backup.zstd'' ''out'' start_world)) =
     [Call BridgeCopy, Go ExtractorStage, RemoteGet ''backup.zstd'', ClosePipeWriter] \<and>
   Go BridgeCopy \<notin>
     set (steps (snd (DownloadCompressedDirectory all_ok ''backup.zstd'' ''out'' start_world)))"
  by (simp add: run_defs)



end
